theory Spec2Isabelle
  imports Complex_Main "HOL-Library.Sublist"
begin

section \<open>JavaScript values\<close>

text \<open>
  The handlers of the server read three kinds of input: the \<open>Authorization\<close> header
  (a string, or \<open>undefined\<close> when the header is absent), query parameters as the
  query parser of Express leaves them (a string, an array or an object, or
  \<open>undefined\<close>), and fields of the JSON body parsed by \<open>express.json()\<close>.
  Strings are byte lists (the UTF-8 encoding of the text). No version of Express is
  fixed by the sources, so the model admits what either major version can hand to a
  handler: objects among the query values (the extended parser of Express 4 builds
  them, also with a key such as \<open>toString\<close>), and an \<open>undefined\<close> body
  (Express 5 leaves \<open>req.body\<close> undefined when no JSON body was parsed).

  A JavaScript number is a binary64 value. Every finite binary64 value is a rational
  number, so \<open>Fin\<close> carries a rational; \<open>Fin 0\<close> stands for both zeros, which
  the code below never tells apart (both are falsy, floor to a zero and print as 0).
\<close>

datatype jsnum = NaN | PosInf | NegInf | Fin rat

datatype jsval =
    Undefined
  | Null
  | Bool bool
  | Num jsnum
  | Str string
  | Arr "jsval list"
  | Obj "(string \<times> jsval) list"

text \<open>A parsed query value: \<open>?q=a\<close>, \<open>?q[]=a&q[]=b\<close>, \<open>?q[k]=a\<close>.\<close>

datatype qsval =
    QStr string
  | QArr "qsval list"
  | QObj "(string \<times> qsval) list"

datatype js_error = TypeError

text \<open>
  Two conversions of the language are not defined here, because their results depend
  on rounding to binary64: the number a string denotes (\<open>StringToNumber\<close>) and the
  shortest digit string that reads back as a given number (used by \<open>Number::toString\<close>
  for numbers that are not integers of magnitude at most \<open>2^53\<close>). The handlers take
  them as a parameter; every theorem below holds for all such conversions.
\<close>

record js_runtime =
  StringToNumber :: "string \<Rightarrow> jsnum"
  shortest_digits :: "rat \<Rightarrow> string"

subsection \<open>Strings\<close>

fun join :: "string \<Rightarrow> string list \<Rightarrow> string" where
  "join sep [] = []"
| "join sep [x] = x"
| "join sep (x # y # ys) = x @ sep @ join sep (y # ys)"

text \<open>\<open>s.includes(p)\<close> on strings: \<open>p\<close> occurs somewhere in \<open>s\<close>.\<close>

fun includes_str :: "string \<Rightarrow> string \<Rightarrow> bool" where
  "includes_str [] p = (p = [])"
| "includes_str (c # cs) p = (prefix p (c # cs) \<or> includes_str cs p)"

text \<open>
  \<open>s.replace(pat, rep)\<close> with a string pattern: the first occurrence of \<open>pat\<close> in
  \<open>s\<close> is replaced, wherever it is; \<open>s\<close> is returned unchanged when there is none.
  (The replacement used by the handlers is the empty string, so the \<open>$\<close> patterns
  of the replacement text play no role.)
\<close>

fun replace_first :: "string \<Rightarrow> string \<Rightarrow> string \<Rightarrow> string" where
  "replace_first pat rep [] = (if pat = [] then rep else [])"
| "replace_first pat rep (c # cs) =
     (if prefix pat (c # cs) then rep @ drop (length pat) (c # cs)
      else c # replace_first pat rep cs)"

definition hex_digit :: "nat \<Rightarrow> char" where
  "hex_digit n = ''0123456789ABCDEF'' ! (n mod 16)"

definition percent_byte :: "char \<Rightarrow> string" where
  "percent_byte c = [CHR ''%'', hex_digit (of_char c div 16), hex_digit (of_char c mod 16)]"

definition alphanumeric :: "char \<Rightarrow> bool" where
  "alphanumeric c = (c \<in> set ''ABCDEFGHIJKLMNOPQRSTUVWXYZabcdefghijklmnopqrstuvwxyz0123456789'')"

text \<open>
  \<open>encodeURIComponent\<close>: every byte of the UTF-8 encoding is percent-encoded, except
  letters, digits and \<open>- _ . ! ~ * ' ( )\<close>. (It throws on a lone surrogate, which a
  byte string cannot hold and the query parser does not produce.)
\<close>

definition uri_unreserved :: "char \<Rightarrow> bool" where
  "uri_unreserved c = (alphanumeric c \<or> c \<in> set ''-_.!~*()'' \<or> c = CHR 0x27)"

definition encodeURIComponent :: "string \<Rightarrow> string" where
  "encodeURIComponent s = concat (map (\<lambda>c. if uri_unreserved c then [c] else percent_byte c) s)"

text \<open>
  The serializer of \<open>URLSearchParams\<close> (application/x-www-form-urlencoded): letters,
  digits and \<open>* - . _\<close> are kept, a space becomes \<open>+\<close>, every other byte is
  percent-encoded; pairs are written \<open>name=value\<close> and joined by \<open>&\<close>.
\<close>

definition form_byte :: "char \<Rightarrow> string" where
  "form_byte c =
     (if alphanumeric c \<or> c \<in> set ''*-._'' then [c]
      else if c = CHR '' '' then ''+''
      else percent_byte c)"

definition form_encode :: "string \<Rightarrow> string" where
  "form_encode s = concat (map form_byte s)"

definition URLSearchParams_toString :: "(string \<times> string) list \<Rightarrow> string" where
  "URLSearchParams_toString ps =
     join ''&'' (map (\<lambda>(k, v). form_encode k @ ''='' @ form_encode v) ps)"

text \<open>\<open>Buffer.from(s).toString('base64')\<close>.\<close>

definition b64_char :: "nat \<Rightarrow> char" where
  "b64_char n =
     ''ABCDEFGHIJKLMNOPQRSTUVWXYZabcdefghijklmnopqrstuvwxyz0123456789+/'' ! (n mod 64)"

fun base64_bytes :: "nat list \<Rightarrow> string" where
  "base64_bytes [] = []"
| "base64_bytes [a] =
     [b64_char (a div 4), b64_char ((a mod 4) * 16), CHR ''='', CHR ''='']"
| "base64_bytes [a, b] =
     [b64_char (a div 4), b64_char ((a mod 4) * 16 + b div 16),
      b64_char ((b mod 16) * 4), CHR ''='']"
| "base64_bytes (a # b # c # r) =
     [b64_char (a div 4), b64_char ((a mod 4) * 16 + b div 16),
      b64_char ((b mod 16) * 4 + c div 64), b64_char (c mod 64)] @ base64_bytes r"

definition base64 :: "string \<Rightarrow> string" where
  "base64 s = base64_bytes (map of_char s)"

subsection \<open>Numbers\<close>

text \<open>\<open>Math.floor\<close>: the greatest integer not above the argument.\<close>

fun Math_floor :: "jsnum \<Rightarrow> jsnum" where
  "Math_floor (Fin q) = Fin (of_int \<lfloor>q\<rfloor>)"
| "Math_floor n = n"

function decimal :: "nat \<Rightarrow> string" where
  "decimal n =
     (if n < 10 then [''0123456789'' ! n]
      else decimal (n div 10) @ [''0123456789'' ! (n mod 10)])"
  by pat_completeness auto
termination
  by (relation "measure id") auto

declare decimal.simps [simp del]

definition int_toString :: "int \<Rightarrow> string" where
  "int_toString i = (if i < 0 then ''-'' @ decimal (nat (- i)) else decimal (nat i))"

text \<open>
  \<open>Number::toString\<close>. An integer of magnitude at most \<open>2^53\<close> prints as its decimal
  digits; other finite numbers print the shortest digit string that reads back as the
  same binary64 value, which is the runtime's \<open>shortest_digits\<close>.
\<close>

definition Number_toString :: "js_runtime \<Rightarrow> jsnum \<Rightarrow> string" where
  "Number_toString rt n =
     (case n of
        NaN \<Rightarrow> ''NaN''
      | PosInf \<Rightarrow> ''Infinity''
      | NegInf \<Rightarrow> ''-Infinity''
      | Fin q \<Rightarrow>
          if q = of_int \<lfloor>q\<rfloor> \<and> \<bar>q\<bar> \<le> 9007199254740992 then int_toString \<lfloor>q\<rfloor>
          else shortest_digits rt q)"

subsection \<open>Conversions\<close>

text \<open>Truthiness, as tested by \<open>if (x)\<close> and \<open>!x\<close>.\<close>

fun truthy :: "jsval \<Rightarrow> bool" where
  "truthy Undefined = False"
| "truthy Null = False"
| "truthy (Bool b) = b"
| "truthy (Num NaN) = False"
| "truthy (Num (Fin q)) = (q \<noteq> 0)"
| "truthy (Num n) = True"
| "truthy (Str s) = (s \<noteq> [])"
| "truthy (Arr xs) = True"
| "truthy (Obj kvs) = True"

text \<open>
  \<open>ToString\<close>, as applied by template literals and by \<open>URLSearchParams\<close>. An array
  joins its elements with commas, \<open>null\<close> and \<open>undefined\<close> elements printing as
  nothing. An object is converted through its \<open>toString\<close> and \<open>valueOf\<close>
  methods: a parsed object inherits both, and prints as \<open>[object Object]\<close>, unless it
  has a key \<open>toString\<close> of its own. The value under that key is data, never a
  function, the inherited \<open>valueOf\<close> returns the object itself, and the conversion
  throws a \<open>TypeError\<close>; so does the conversion of an array that holds such an
  object.
\<close>

fun ToString :: "js_runtime \<Rightarrow> jsval \<Rightarrow> js_error + string"
  and ToString_elements :: "js_runtime \<Rightarrow> jsval list \<Rightarrow> js_error + string list" where
  "ToString rt Undefined = Inr ''undefined''"
| "ToString rt Null = Inr ''null''"
| "ToString rt (Bool b) = Inr (if b then ''true'' else ''false'')"
| "ToString rt (Num n) = Inr (Number_toString rt n)"
| "ToString rt (Str s) = Inr s"
| "ToString rt (Arr xs) =
     (case ToString_elements rt xs of Inl err \<Rightarrow> Inl err | Inr ss \<Rightarrow> Inr (join '','' ss))"
| "ToString rt (Obj kvs) =
     (if ''toString'' \<in> set (map fst kvs) then Inl TypeError else Inr ''[object Object]'')"
| "ToString_elements rt [] = Inr []"
| "ToString_elements rt (x # xs) =
     (case (if x = Undefined \<or> x = Null then Inr [] else ToString rt x) of
        Inl err \<Rightarrow> Inl err
      | Inr s \<Rightarrow>
          (case ToString_elements rt xs of Inl err \<Rightarrow> Inl err | Inr ss \<Rightarrow> Inr (s # ss)))"

text \<open>
  \<open>ToNumber\<close>, as applied by \<open>Math.floor\<close> to its argument. An array or an object
  is first converted to a string, and throws where that conversion throws.
\<close>

fun ToNumber :: "js_runtime \<Rightarrow> jsval \<Rightarrow> js_error + jsnum" where
  "ToNumber rt Undefined = Inr NaN"
| "ToNumber rt Null = Inr (Fin 0)"
| "ToNumber rt (Bool b) = Inr (if b then Fin 1 else Fin 0)"
| "ToNumber rt (Num n) = Inr n"
| "ToNumber rt (Str s) = Inr (StringToNumber rt s)"
| "ToNumber rt v =
     (case ToString rt v of Inl err \<Rightarrow> Inl err | Inr s \<Rightarrow> Inr (StringToNumber rt s))"

text \<open>The same two conversions on parsed query values.\<close>

fun q_truthy :: "qsval option \<Rightarrow> bool" where
  "q_truthy None = False"
| "q_truthy (Some (QStr s)) = (s \<noteq> [])"
| "q_truthy (Some v) = True"

fun q_toString :: "qsval \<Rightarrow> js_error + string"
  and q_toString_elements :: "qsval list \<Rightarrow> js_error + string list" where
  "q_toString (QStr s) = Inr s"
| "q_toString (QArr xs) =
     (case q_toString_elements xs of Inl err \<Rightarrow> Inl err | Inr ss \<Rightarrow> Inr (join '','' ss))"
| "q_toString (QObj kvs) =
     (if ''toString'' \<in> set (map fst kvs) then Inl TypeError else Inr ''[object Object]'')"
| "q_toString_elements [] = Inr []"
| "q_toString_elements (x # xs) =
     (case q_toString x of
        Inl err \<Rightarrow> Inl err
      | Inr s \<Rightarrow>
          (case q_toString_elements xs of Inl err \<Rightarrow> Inl err | Inr ss \<Rightarrow> Inr (s # ss)))"

text \<open>
  Reading a property of a value that is neither \<open>null\<close> nor \<open>undefined\<close>. Only
  objects have the properties the handlers read (\<open>uri\<close>, \<open>position_ms\<close>,
  \<open>volume_percent\<close>, \<open>access_token\<close>, \<open>refresh_token\<close>); an object built
  by a JSON parser has each key once.
\<close>

fun get_property :: "jsval \<Rightarrow> string \<Rightarrow> jsval" where
  "get_property (Obj kvs) k = (case map_of kvs k of None \<Rightarrow> Undefined | Some v \<Rightarrow> v)"
| "get_property v k = Undefined"

text \<open>
  \<open>v.includes(p)\<close> for a string \<open>p\<close>: substring search on a string, membership
  on an array; any other value that passed \<open>if (v)\<close> has no callable \<open>includes\<close>
  and the call throws.
\<close>

fun js_includes :: "jsval \<Rightarrow> string \<Rightarrow> js_error + bool" where
  "js_includes (Str s) p = Inr (includes_str s p)"
| "js_includes (Arr xs) p = Inr (Str p \<in> set xs)"
| "js_includes v p = Inl TypeError"

section \<open>Requests, responses and the upstream service\<close>

text \<open>
  What a handler sees of an incoming request. \<open>authorization\<close> is
  \<open>req.headers.authorization\<close> (\<open>None\<close>: the header is absent), \<open>query\<close> is
  \<open>req.query\<close>, and \<open>body\<close> is \<open>req.body\<close>: the object or array parsed by
  \<open>express.json()\<close>; without a JSON body it is the empty object under Express 4 and
  \<open>undefined\<close> under Express 5.
\<close>

record request =
  authorization :: "string option"
  query :: "(string \<times> qsval) list"
  body :: jsval

text \<open>The configuration read from the environment at startup.\<close>

record config =
  CLIENT_ID :: string
  CLIENT_SECRET :: string
  REDIRECT_URI :: string
  FRONTEND_URL :: string

datatype http_verb = GET | POST | PUT

datatype payload = NoBody | JsonBody jsval | FormBody string

record upstream_request =
  verb :: http_verb
  url :: string
  headers :: "(string \<times> string) list"
  payload :: payload

record upstream_response =
  status :: nat
  data :: jsval

text \<open>
  The upstream service is the environment of a handler: it answers a request with a
  response, or with none when the transport fails.
\<close>

type_synonym upstream = "upstream_request \<Rightarrow> upstream_response option"

text \<open>
  The HTTP client. With its default \<open>validateStatus\<close> the promise of \<open>axios\<close>
  resolves for a status from 200 to 299 and rejects for every other one, the error
  carrying the response; a transport failure rejects with an error that has no
  \<open>response\<close>. \<open>Rejected e\<close> holds \<open>error.response\<close>.
\<close>

datatype axios_result = Resolved upstream_response | Rejected "upstream_response option"

definition validateStatus :: "nat \<Rightarrow> bool" where
  "validateStatus s = (200 \<le> s \<and> s < 300)"

definition axios :: "upstream \<Rightarrow> upstream_request \<Rightarrow> axios_result" where
  "axios upstream call =
     (case upstream call of
        None \<Rightarrow> Rejected None
      | Some r \<Rightarrow> if validateStatus (status r) then Resolved r else Rejected (Some r))"

text \<open>
  What a handler does: the response it sends (\<open>res.status(s).json(v)\<close>, with status
  200 when \<open>res.json\<close> is called alone, or \<open>res.redirect(target)\<close>) and the
  outbound calls it made, in order. \<open>Thrown\<close> is a handler that throws outside its
  \<open>try\<close> block and sends nothing itself: Express 5 passes the error to the error
  middleware at the end of the file, which answers 500 with
  \<open>{error: "Internal server error", message: ...}\<close>; Express 4 does not observe
  the rejected promise of an async handler, and the request stays unanswered.
\<close>

datatype response = Json nat jsval | Redirect string | Thrown js_error

record outcome =
  response :: response
  calls :: "upstream_request list"

section \<open>The resource proxy handlers\<close>

text \<open>\<open>req.headers.authorization?.replace('Bearer ', '')\<close>\<close>

definition bearer_token :: "request \<Rightarrow> string option" where
  "bearer_token req = map_option (replace_first ''Bearer '' []) (authorization req)"

text \<open>
  \<open>const { k } = req.body\<close>: the field \<open>k\<close> of the body, \<open>undefined\<close> when it
  has none; destructuring an \<open>undefined\<close> or \<open>null\<close> body throws.
\<close>

definition body_field :: "request \<Rightarrow> string \<Rightarrow> js_error + jsval" where
  "body_field req k =
     (if body req = Undefined \<or> body req = Null then Inl TypeError
      else Inr (get_property (body req) k))"

definition unauthorized :: outcome where
  "unauthorized =
     \<lparr>response = Json 401 (Obj [(''error'', Str ''No token provided'')]), calls = []\<rparr>"

definition bad_request :: "string \<Rightarrow> outcome" where
  "bad_request msg = \<lparr>response = Json 400 (Obj [(''error'', Str msg)]), calls = []\<rparr>"

definition success :: response where
  "success = Json 200 (Obj [(''success'', Bool True)])"

text \<open>\<open>error.response?.status || 500\<close> and \<open>error.response?.data\<close>\<close>

definition error_status :: "upstream_response option \<Rightarrow> nat" where
  "error_status e =
     (case e of None \<Rightarrow> 500 | Some r \<Rightarrow> if status r = 0 then 500 else status r)"

definition error_data :: "upstream_response option \<Rightarrow> jsval" where
  "error_data e = (case e of None \<Rightarrow> Undefined | Some r \<Rightarrow> data r)"

text \<open>The response of a catch block: \<open>{error: msg, details: error.response?.data}\<close>.\<close>

definition failure :: "string \<Rightarrow> upstream_response option \<Rightarrow> response" where
  "failure msg e =
     Json (error_status e) (Obj [(''error'', Str msg), (''details'', error_data e)])"

definition bearer_header :: "string \<Rightarrow> string \<times> string" where
  "bearer_header token = (''Authorization'', ''Bearer '' @ token)"

definition playlists :: "request \<Rightarrow> upstream \<Rightarrow> outcome" where
  "playlists req upstream =
     (case bearer_token req of
        None \<Rightarrow> unauthorized
      | Some token \<Rightarrow>
          if token = [] then unauthorized
          else
            let call = \<lparr>verb = GET,
                        url = ''https://api.spotify.com/v1/me/playlists?limit=50'',
                        headers = [bearer_header token],
                        payload = NoBody\<rparr>
            in case axios upstream call of
                 Resolved r \<Rightarrow> \<lparr>response = Json 200 (data r), calls = [call]\<rparr>
               | Rejected e \<Rightarrow>
                   \<lparr>response = failure ''Failed to fetch playlists'' e, calls = [call]\<rparr>)"

text \<open>
  The conversion of a query value to a string, by a template literal or by
  \<open>encodeURIComponent\<close>. In \<open>/api/search\<close> it happens inside the \<open>try\<close>
  block, before the call is made: when it throws, the catch block answers with an error
  that has no \<open>response\<close>.
\<close>

fun q_template :: "qsval option \<Rightarrow> js_error + string" where
  "q_template None = Inr ''undefined''"
| "q_template (Some v) = q_toString v"

definition search :: "request \<Rightarrow> upstream \<Rightarrow> outcome" where
  "search req upstream =
     (let q = map_of (query req) ''q'' in
      case bearer_token req of
        None \<Rightarrow> unauthorized
      | Some token \<Rightarrow>
          if token = [] then unauthorized
          else if \<not> q_truthy q then bad_request ''No search query provided''
          else
            case q_template q of
              Inl err \<Rightarrow> \<lparr>response = failure ''Search failed'' None, calls = []\<rparr>
            | Inr s \<Rightarrow>
                let call = \<lparr>verb = GET,
                            url = ''https://api.spotify.com/v1/search?q=''
                                  @ encodeURIComponent s
                                  @ ''&type=track,album,artist&limit=20'',
                            headers = [bearer_header token],
                            payload = NoBody\<rparr>
                in case axios upstream call of
                     Resolved r \<Rightarrow> \<lparr>response = Json 200 (data r), calls = [call]\<rparr>
                   | Rejected e \<Rightarrow>
                       \<lparr>response = failure ''Search failed'' e, calls = [call]\<rparr>)"

text \<open>
  The payload of \<open>/api/play\<close>. \<open>uri.includes\<close> is evaluated only for a truthy
  \<open>uri\<close>; when it throws, no payload is built.
\<close>

definition play_payload :: "jsval \<Rightarrow> js_error + jsval" where
  "play_payload uri =
     (if truthy uri then
        (case js_includes uri ''track:'' of
           Inl err \<Rightarrow> Inl err
         | Inr True \<Rightarrow> Inr (Obj [(''uris'', Arr [uri])])
         | Inr False \<Rightarrow> Inr (Obj [(''context_uri'', uri)]))
      else Inr (Obj []))"

text \<open>The catch block of \<open>/api/play\<close>, with its own message for a 404.\<close>

definition play_failure :: "upstream_response option \<Rightarrow> response" where
  "play_failure e =
     (if map_option status e = Some 404 then
        Json 404
          (Obj [(''error'', Str ''No active device found. Please open Spotify on a device first.''),
                (''details'', error_data e)])
      else failure ''Playback failed'' e)"

text \<open>
  In \<open>/api/play\<close>, \<open>/api/seek\<close> and \<open>/api/volume\<close> the body is destructured on
  the first line of the handler, before the token is tested and outside the \<open>try\<close>
  block.
\<close>

definition play :: "request \<Rightarrow> upstream \<Rightarrow> outcome" where
  "play req upstream =
     (case body_field req ''uri'' of
        Inl err \<Rightarrow> \<lparr>response = Thrown err, calls = []\<rparr>
      | Inr uri \<Rightarrow>
          (case bearer_token req of
             None \<Rightarrow> unauthorized
           | Some token \<Rightarrow>
               if token = [] then unauthorized
               else
                 case play_payload uri of
                   Inl err \<Rightarrow> \<lparr>response = play_failure None, calls = []\<rparr>
                 | Inr b \<Rightarrow>
                     let call = \<lparr>verb = PUT,
                                 url = ''https://api.spotify.com/v1/me/player/play'',
                                 headers = [bearer_header token,
                                            (''Content-Type'', ''application/json'')],
                                 payload = JsonBody b\<rparr>
                     in case axios upstream call of
                          Resolved r \<Rightarrow> \<lparr>response = success, calls = [call]\<rparr>
                        | Rejected e \<Rightarrow> \<lparr>response = play_failure e, calls = [call]\<rparr>))"

text \<open>
  \<open>/api/pause\<close>, \<open>/api/next\<close> and \<open>/api/previous\<close> differ in the verb, the URL and
  the message of the catch block only.
\<close>

definition pause :: "request \<Rightarrow> upstream \<Rightarrow> outcome" where
  "pause req upstream =
     (case bearer_token req of
        None \<Rightarrow> unauthorized
      | Some token \<Rightarrow>
          if token = [] then unauthorized
          else
            let call = \<lparr>verb = PUT,
                        url = ''https://api.spotify.com/v1/me/player/pause'',
                        headers = [bearer_header token],
                        payload = JsonBody (Obj [])\<rparr>
            in case axios upstream call of
                 Resolved r \<Rightarrow> \<lparr>response = success, calls = [call]\<rparr>
               | Rejected e \<Rightarrow> \<lparr>response = failure ''Pause failed'' e, calls = [call]\<rparr>)"

definition next_track :: "request \<Rightarrow> upstream \<Rightarrow> outcome" where
  "next_track req upstream =
     (case bearer_token req of
        None \<Rightarrow> unauthorized
      | Some token \<Rightarrow>
          if token = [] then unauthorized
          else
            let call = \<lparr>verb = POST,
                        url = ''https://api.spotify.com/v1/me/player/next'',
                        headers = [bearer_header token],
                        payload = JsonBody (Obj [])\<rparr>
            in case axios upstream call of
                 Resolved r \<Rightarrow> \<lparr>response = success, calls = [call]\<rparr>
               | Rejected e \<Rightarrow>
                   \<lparr>response = failure ''Next track failed'' e, calls = [call]\<rparr>)"

definition previous_track :: "request \<Rightarrow> upstream \<Rightarrow> outcome" where
  "previous_track req upstream =
     (case bearer_token req of
        None \<Rightarrow> unauthorized
      | Some token \<Rightarrow>
          if token = [] then unauthorized
          else
            let call = \<lparr>verb = POST,
                        url = ''https://api.spotify.com/v1/me/player/previous'',
                        headers = [bearer_header token],
                        payload = JsonBody (Obj [])\<rparr>
            in case axios upstream call of
                 Resolved r \<Rightarrow> \<lparr>response = success, calls = [call]\<rparr>
               | Rejected e \<Rightarrow>
                   \<lparr>response = failure ''Previous track failed'' e, calls = [call]\<rparr>)"

text \<open>
  \<open>/api/current\<close>. The test for a 204 sits in the catch block, so it sees rejected
  calls only.
\<close>

definition nothing_playing :: jsval where
  "nothing_playing =
     Obj [(''is_playing'', Bool False), (''item'', Null), (''progress_ms'', Num (Fin 0))]"

definition current :: "request \<Rightarrow> upstream \<Rightarrow> outcome" where
  "current req upstream =
     (case bearer_token req of
        None \<Rightarrow> unauthorized
      | Some token \<Rightarrow>
          if token = [] then unauthorized
          else
            let call = \<lparr>verb = GET,
                        url = ''https://api.spotify.com/v1/me/player'',
                        headers = [bearer_header token],
                        payload = NoBody\<rparr>
            in case axios upstream call of
                 Resolved r \<Rightarrow> \<lparr>response = Json 200 (data r), calls = [call]\<rparr>
               | Rejected e \<Rightarrow>
                   if map_option status e = Some 204
                   then \<lparr>response = Json 200 nothing_playing, calls = [call]\<rparr>
                   else \<lparr>response = failure ''Failed to get playback state'' e,
                         calls = [call]\<rparr>)"

text \<open>
  \<open>Math.floor(position_ms)\<close> is evaluated inside the \<open>try\<close> block, while the URL
  is built: when the conversion to a number throws, no call is made and the catch block
  answers with an error that has no \<open>response\<close>.
\<close>

definition seek :: "js_runtime \<Rightarrow> request \<Rightarrow> upstream \<Rightarrow> outcome" where
  "seek rt req upstream =
     (case body_field req ''position_ms'' of
        Inl err \<Rightarrow> \<lparr>response = Thrown err, calls = []\<rparr>
      | Inr position_ms \<Rightarrow>
          (case bearer_token req of
             None \<Rightarrow> unauthorized
           | Some token \<Rightarrow>
               if token = [] then unauthorized
               else if position_ms = Undefined then bad_request ''No position provided''
               else
                 case ToNumber rt position_ms of
                   Inl err \<Rightarrow> \<lparr>response = failure ''Seek failed'' None, calls = []\<rparr>
                 | Inr n \<Rightarrow>
                     let call = \<lparr>verb = PUT,
                                 url = ''https://api.spotify.com/v1/me/player/seek?position_ms=''
                                       @ Number_toString rt (Math_floor n),
                                 headers = [bearer_header token],
                                 payload = JsonBody (Obj [])\<rparr>
                     in case axios upstream call of
                          Resolved r \<Rightarrow> \<lparr>response = success, calls = [call]\<rparr>
                        | Rejected e \<Rightarrow>
                            \<lparr>response = failure ''Seek failed'' e, calls = [call]\<rparr>))"

definition volume :: "js_runtime \<Rightarrow> request \<Rightarrow> upstream \<Rightarrow> outcome" where
  "volume rt req upstream =
     (case body_field req ''volume_percent'' of
        Inl err \<Rightarrow> \<lparr>response = Thrown err, calls = []\<rparr>
      | Inr volume_percent \<Rightarrow>
          (case bearer_token req of
             None \<Rightarrow> unauthorized
           | Some token \<Rightarrow>
               if token = [] then unauthorized
               else if volume_percent = Undefined then bad_request ''No volume provided''
               else
                 case ToNumber rt volume_percent of
                   Inl err \<Rightarrow>
                     \<lparr>response = failure ''Volume change failed'' None, calls = []\<rparr>
                 | Inr n \<Rightarrow>
                     let call = \<lparr>verb = PUT,
                                 url = ''https://api.spotify.com/v1/me/player/volume?volume_percent=''
                                       @ Number_toString rt (Math_floor n),
                                 headers = [bearer_header token],
                                 payload = JsonBody (Obj [])\<rparr>
                     in case axios upstream call of
                          Resolved r \<Rightarrow> \<lparr>response = success, calls = [call]\<rparr>
                        | Rejected e \<Rightarrow>
                            \<lparr>response = failure ''Volume change failed'' e,
                             calls = [call]\<rparr>))"

text \<open>The nine routes of the resource proxy.\<close>

datatype endpoint =
  Playlists | Search | Play | Pause | Next | Previous | Current | Seek | Volume

fun handle :: "js_runtime \<Rightarrow> endpoint \<Rightarrow> request \<Rightarrow> upstream \<Rightarrow> outcome" where
  "handle rt Playlists req upstream = playlists req upstream"
| "handle rt Search req upstream = search req upstream"
| "handle rt Play req upstream = play req upstream"
| "handle rt Pause req upstream = pause req upstream"
| "handle rt Next req upstream = next_track req upstream"
| "handle rt Previous req upstream = previous_track req upstream"
| "handle rt Current req upstream = current req upstream"
| "handle rt Seek req upstream = seek rt req upstream"
| "handle rt Volume req upstream = volume rt req upstream"

section \<open>The OAuth callback\<close>

text \<open>
  \<open>querystring.stringify\<close>: a string value is escaped (with the unreserved set of
  \<open>encodeURIComponent\<close>), an array gives one pair per element, and a value that is
  not a primitive is written as the empty string.
\<close>

fun stringifyPrimitive :: "qsval option \<Rightarrow> string" where
  "stringifyPrimitive (Some (QStr s)) = s"
| "stringifyPrimitive v = []"

fun stringify_field :: "string \<times> qsval option \<Rightarrow> string list" where
  "stringify_field (k, Some (QArr vs)) =
     map (\<lambda>v. encodeURIComponent k @ ''='' @ encodeURIComponent (stringifyPrimitive (Some v))) vs"
| "stringify_field (k, v) =
     [encodeURIComponent k @ ''='' @ encodeURIComponent (stringifyPrimitive v)]"

definition querystring_stringify :: "(string \<times> qsval option) list \<Rightarrow> string" where
  "querystring_stringify kvs = join ''&'' (concat (map stringify_field kvs))"

text \<open>
  \<open>const {access_token, refresh_token, expires_in} = response.data\<close> throws when
  the data is \<open>null\<close> or \<open>undefined\<close>; \<open>expires_in\<close> is read and not used.
\<close>

fun destructure_tokens :: "jsval \<Rightarrow> js_error + jsval \<times> jsval" where
  "destructure_tokens Undefined = Inl TypeError"
| "destructure_tokens Null = Inl TypeError"
| "destructure_tokens d = Inr (get_property d ''access_token'', get_property d ''refresh_token'')"

text \<open>
  The entries of the \<open>URLSearchParams\<close> built for the redirect. The constructor and
  \<open>append\<close> convert each value to a string, and throw where that conversion
  throws.
\<close>

definition token_params ::
  "js_runtime \<Rightarrow> jsval \<Rightarrow> jsval \<Rightarrow> js_error + (string \<times> string) list" where
  "token_params rt access_token refresh_token =
     (case ToString rt access_token of
        Inl err \<Rightarrow> Inl err
      | Inr a \<Rightarrow>
          if truthy refresh_token then
            (case ToString rt refresh_token of
               Inl err \<Rightarrow> Inl err
             | Inr f \<Rightarrow> Inr [(''access_token'', a), (''refresh_token'', f)])
          else Inr [(''access_token'', a)])"

definition token_request :: "config \<Rightarrow> qsval option \<Rightarrow> upstream_request" where
  "token_request cfg code =
     \<lparr>verb = POST,
      url = ''https://accounts.spotify.com/api/token'',
      headers = [(''Authorization'',
                  ''Basic '' @ base64 (CLIENT_ID cfg @ '':'' @ CLIENT_SECRET cfg)),
                 (''Content-Type'', ''application/x-www-form-urlencoded'')],
      payload = FormBody (querystring_stringify
                  [(''code'', code),
                   (''redirect_uri'', Some (QStr (REDIRECT_URI cfg))),
                   (''grant_type'', Some (QStr ''authorization_code''))])\<rparr>"

definition callback :: "config \<Rightarrow> js_runtime \<Rightarrow> request \<Rightarrow> upstream \<Rightarrow> outcome" where
  "callback cfg rt req upstream =
     (let code = map_of (query req) ''code'';
          error = map_of (query req) ''error''
      in
        if q_truthy error then
          (case q_template error of
             Inl err \<Rightarrow> \<lparr>response = Thrown err, calls = []\<rparr>
           | Inr s \<Rightarrow>
               \<lparr>response = Redirect (FRONTEND_URL cfg @ ''/?error='' @ s), calls = []\<rparr>)
        else if \<not> q_truthy code then
          \<lparr>response = Redirect (FRONTEND_URL cfg @ ''/?error=no_code''), calls = []\<rparr>
        else
          let call = token_request cfg code in
          case axios upstream call of
            Resolved r \<Rightarrow>
              (case destructure_tokens (data r) of
                 Inl err \<Rightarrow>
                   \<lparr>response = Redirect (FRONTEND_URL cfg @ ''/?error=auth_failed''),
                    calls = [call]\<rparr>
               | Inr (access_token, refresh_token) \<Rightarrow>
                   (case token_params rt access_token refresh_token of
                      Inl err \<Rightarrow>
                        \<lparr>response = Redirect (FRONTEND_URL cfg @ ''/?error=auth_failed''),
                         calls = [call]\<rparr>
                    | Inr params \<Rightarrow>
                        \<lparr>response = Redirect (FRONTEND_URL cfg @ ''/?''
                            @ URLSearchParams_toString params),
                         calls = [call]\<rparr>))
          | Rejected e \<Rightarrow>
              \<lparr>response = Redirect (FRONTEND_URL cfg @ ''/?error=auth_failed''),
               calls = [call]\<rparr>)"

section \<open>Notions used by the properties\<close>


text \<open>
  Truncation as the specification words it: the fractional part is dropped, so the
  result lies between zero and the number.
\<close>

definition truncate_toward_zero :: "rat \<Rightarrow> int" where
  "truncate_toward_zero q = (if 0 \<le> q then \<lfloor>q\<rfloor> else \<lceil>q\<rceil>)"

text \<open>An upstream stub that gives the same answer to every call.\<close>

definition stub_upstream :: "upstream_response option \<Rightarrow> upstream" where
  "stub_upstream answer call = answer"

text \<open>
  A runtime for evaluating the handlers on concrete requests. It reads a string of
  decimal digits as its value and the empty string as 0, as \<open>StringToNumber\<close> does,
  and gives \<open>NaN\<close> for a string with any other character, which is right for the
  strings without digits used below. Its \<open>shortest_digits\<close> is never consulted for
  the integers of the examples.
\<close>

definition digits_value :: "string \<Rightarrow> nat" where
  "digits_value s = foldl (\<lambda>n c. 10 * n + (of_char c - 48)) 0 s"

definition test_runtime :: js_runtime where
  "test_runtime =
     \<lparr>StringToNumber =
        (\<lambda>s. if list_all (\<lambda>c. c \<in> set ''0123456789'') s then Fin (of_nat (digits_value s))
             else NaN),
      shortest_digits = (\<lambda>q. [])\<rparr>"

text \<open>A configuration for evaluating the callback on concrete requests.\<close>

definition test_config :: config where
  "test_config =
     \<lparr>CLIENT_ID = ''id'', CLIENT_SECRET = ''secret'',
      REDIRECT_URI = ''http://localhost:3000/callback'',
      FRONTEND_URL = ''http://localhost:3000''\<rparr>"

section \<open>Properties of the resource proxy\<close>

lemmas handler_defs =
  playlists_def search_def play_def pause_def next_track_def previous_track_def
  current_def seek_def volume_def

text \<open>
  Claim C1. The claim asks for status 401 and no upstream call on each of the nine
  routes when the \<open>Authorization\<close> header is absent. \<open>/api/play\<close>,
  \<open>/api/seek\<close> and \<open>/api/volume\<close> destructure \<open>req.body\<close> before they test
  the token: for a request without a body, which Express 5 hands over with an
  \<open>undefined\<close> body, they throw before the test and send no 401, where the other
  routes, and the same three routes with a body, answer 401.
\<close>

theorem missing_header_without_body:
  "handle test_runtime Play \<lparr>authorization = None, query = [], body = Undefined\<rparr>
     (stub_upstream None)
     = \<lparr>response = Thrown TypeError, calls = []\<rparr>
   \<and> handle test_runtime Seek \<lparr>authorization = None, query = [], body = Undefined\<rparr>
       (stub_upstream None)
     = \<lparr>response = Thrown TypeError, calls = []\<rparr>
   \<and> handle test_runtime Volume \<lparr>authorization = None, query = [], body = Undefined\<rparr>
       (stub_upstream None)
     = \<lparr>response = Thrown TypeError, calls = []\<rparr>
   \<and> handle test_runtime Pause \<lparr>authorization = None, query = [], body = Undefined\<rparr>
       (stub_upstream None)
     = \<lparr>response = Json 401 (Obj [(''error'', Str ''No token provided'')]), calls = []\<rparr>
   \<and> handle test_runtime Play \<lparr>authorization = None, query = [], body = Obj []\<rparr>
       (stub_upstream None)
     = \<lparr>response = Json 401 (Obj [(''error'', Str ''No token provided'')]), calls = []\<rparr>"
  by (simp add: handler_defs body_field_def bearer_token_def unauthorized_def)

text \<open>
  On the six routes that do not read the body, and on the other three when the body is
  defined, a request without the header is answered with 401 and no call is made.
\<close>

lemma missing_header_with_body:
  assumes "authorization req = None"
    and "ep \<in> {Play, Seek, Volume} \<Longrightarrow> body req \<noteq> Undefined \<and> body req \<noteq> Null"
  shows "handle rt ep req upstream =
     \<lparr>response = Json 401 (Obj [(''error'', Str ''No token provided'')]), calls = []\<rparr>"
  using assms
  by (cases ep)
     (simp_all add: handler_defs body_field_def bearer_token_def unauthorized_def Let_def)

text \<open>
  Claim C3. The claim asks that \<open>/api/current\<close> answer an upstream 204 with status
  200 and the body \<open>{is_playing: false, item: null, progress_ms: 0}\<close>. A 204 is a
  success status, so the call resolves and the handler relays its data; the branch of
  the catch block that builds the normalized body is not reached. For the empty data of
  a response without content the body sent is the empty string.
\<close>

theorem current_no_content_not_normalized:
  "validateStatus 204
   \<and> current \<lparr>authorization = Some ''Bearer t'', query = [], body = Obj []\<rparr>
        (stub_upstream (Some \<lparr>status = 204, data = Str []\<rparr>))
      = \<lparr>response = Json 200 (Str []),
         calls = [\<lparr>verb = GET, url = ''https://api.spotify.com/v1/me/player'',
                   headers = [(''Authorization'', ''Bearer t'')], payload = NoBody\<rparr>]\<rparr>
   \<and> Str [] \<noteq> nothing_playing"
  by (simp add: current_def bearer_token_def axios_def validateStatus_def stub_upstream_def
        bearer_header_def nothing_playing_def)

lemma replace_first_prefix:
  "pat \<noteq> [] \<Longrightarrow> prefix pat s \<Longrightarrow> replace_first pat [] s = drop (length pat) s"
  by (cases s) auto

lemma replace_first_absent:
  "\<not> includes_str s pat \<Longrightarrow> replace_first pat [] s = s"
  by (induction s) auto

lemma single_call_header:
  "bearer_token req = Some token \<Longrightarrow> c \<in> set (calls (handle rt ep req upstream)) \<Longrightarrow>
   headers c = [bearer_header token] \<or>
   headers c = [bearer_header token, (''Content-Type'', ''application/json'')]"
  by (cases ep)
     (auto simp: handler_defs unauthorized_def bad_request_def Let_def
           split: if_splits axios_result.splits sum.splits)

text \<open>
  Claim C4, amended. Every upstream call of a resource proxy handler carries the header
  \<open>Authorization: Bearer <token>\<close>, where the token is the incoming header value
  with the first occurrence of \<open>Bearer \<close> removed: the value without its prefix
  when it starts with \<open>Bearer \<close>, and the whole value when \<open>Bearer \<close> does
  not occur in it.
\<close>

theorem forwarded_token:
  assumes "authorization req = Some h"
  shows "(\<forall>c \<in> set (calls (handle rt ep req upstream)).
            map_of (headers c) ''Authorization''
              = Some (''Bearer '' @ replace_first ''Bearer '' [] h))
         \<and> (prefix ''Bearer '' h \<longrightarrow> replace_first ''Bearer '' [] h = drop (length ''Bearer '') h)
         \<and> (\<not> includes_str h ''Bearer '' \<longrightarrow> replace_first ''Bearer '' [] h = h)"
proof (intro conjI ballI impI)
  fix c assume c: "c \<in> set (calls (handle rt ep req upstream))"
  from assms have "bearer_token req = Some (replace_first ''Bearer '' [] h)"
    by (simp add: bearer_token_def)
  from single_call_header [OF this c]
  show "map_of (headers c) ''Authorization'' = Some (''Bearer '' @ replace_first ''Bearer '' [] h)"
    by (auto simp: bearer_header_def)
next
  assume "prefix ''Bearer '' h"
  then show "replace_first ''Bearer '' [] h = drop (length ''Bearer '') h"
    using replace_first_prefix [of "''Bearer ''" h] by simp
next
  assume "\<not> includes_str h ''Bearer ''"
  then show "replace_first ''Bearer '' [] h = h"
    by (rule replace_first_absent)
qed

text \<open>
  The claim as stated fails for a header value that holds \<open>Bearer \<close> after its
  first character: the prefix is absent, and the token sent is not the whole value.
\<close>

theorem forwarded_token_counterexample:
  "authorization \<lparr>authorization = Some ''Basic Bearer abc'', query = [], body = Obj []\<rparr>
     = Some ''Basic Bearer abc''
   \<and> \<not> prefix ''Bearer '' ''Basic Bearer abc''
   \<and> calls (handle test_runtime Playlists
        \<lparr>authorization = Some ''Basic Bearer abc'', query = [], body = Obj []\<rparr>
        (stub_upstream None))
      = [\<lparr>verb = GET, url = ''https://api.spotify.com/v1/me/playlists?limit=50'',
          headers = [(''Authorization'', ''Bearer Basic abc'')], payload = NoBody\<rparr>]
   \<and> ''Basic abc'' \<noteq> ''Basic Bearer abc''"
  by (simp add: playlists_def bearer_token_def axios_def stub_upstream_def bearer_header_def)

text \<open>
  A header with the prefix and a header without any \<open>Bearer \<close>.
\<close>

theorem forwarded_token_witness:
  "authorization \<lparr>authorization = Some ''Bearer abc'', query = [], body = Obj []\<rparr>
     = Some ''Bearer abc''
   \<and> calls (handle test_runtime Pause
        \<lparr>authorization = Some ''Bearer abc'', query = [], body = Obj []\<rparr> (stub_upstream None))
      = [\<lparr>verb = PUT, url = ''https://api.spotify.com/v1/me/player/pause'',
          headers = [(''Authorization'', ''Bearer abc'')], payload = JsonBody (Obj [])\<rparr>]
   \<and> map_of [(''Authorization'', ''Bearer abc'')] ''Authorization''
      = Some (''Bearer '' @ replace_first ''Bearer '' [] ''Bearer abc'')
   \<and> prefix ''Bearer '' ''Bearer abc''
   \<and> replace_first ''Bearer '' [] ''Bearer abc'' = ''abc''
   \<and> \<not> includes_str ''abc'' ''Bearer ''
   \<and> replace_first ''Bearer '' [] ''abc'' = ''abc''"
  using forwarded_token
    [of "\<lparr>authorization = Some ''Bearer abc'', query = [], body = Obj []\<rparr>" "''Bearer abc''"
        test_runtime Pause "stub_upstream None"]
    forwarded_token
    [of "\<lparr>authorization = Some ''abc'', query = [], body = Obj []\<rparr>" "''abc''"
        test_runtime Pause "stub_upstream None"]
  by (simp add: pause_def bearer_token_def axios_def stub_upstream_def bearer_header_def)

lemma seek_with_token:
  assumes "bearer_token req = Some token" "token \<noteq> []"
    and "body_field req ''position_ms'' = Inr v"
  shows "seek rt req upstream =
     (if v = Undefined then bad_request ''No position provided''
      else
        case ToNumber rt v of
          Inl err \<Rightarrow> \<lparr>response = failure ''Seek failed'' None, calls = []\<rparr>
        | Inr n \<Rightarrow>
            let call = \<lparr>verb = PUT,
                        url = ''https://api.spotify.com/v1/me/player/seek?position_ms=''
                              @ Number_toString rt (Math_floor n),
                        headers = [bearer_header token],
                        payload = JsonBody (Obj [])\<rparr>
            in case axios upstream call of
                 Resolved r \<Rightarrow> \<lparr>response = success, calls = [call]\<rparr>
               | Rejected e \<Rightarrow> \<lparr>response = failure ''Seek failed'' e, calls = [call]\<rparr>)"
  using assms by (simp add: seek_def Let_def)

lemma volume_with_token:
  assumes "bearer_token req = Some token" "token \<noteq> []"
    and "body_field req ''volume_percent'' = Inr v"
  shows "volume rt req upstream =
     (if v = Undefined then bad_request ''No volume provided''
      else
        case ToNumber rt v of
          Inl err \<Rightarrow> \<lparr>response = failure ''Volume change failed'' None, calls = []\<rparr>
        | Inr n \<Rightarrow>
            let call = \<lparr>verb = PUT,
                        url = ''https://api.spotify.com/v1/me/player/volume?volume_percent=''
                              @ Number_toString rt (Math_floor n),
                        headers = [bearer_header token],
                        payload = JsonBody (Obj [])\<rparr>
            in case axios upstream call of
                 Resolved r \<Rightarrow> \<lparr>response = success, calls = [call]\<rparr>
               | Rejected e \<Rightarrow>
                   \<lparr>response = failure ''Volume change failed'' e, calls = [call]\<rparr>)"
  using assms by (simp add: volume_def Let_def)

lemma calls_seek:
  assumes "bearer_token req = Some token" "token \<noteq> []"
    and "body_field req ''position_ms'' = Inr v" "v \<noteq> Undefined" "ToNumber rt v = Inr n"
  shows "calls (seek rt req upstream) =
     [\<lparr>verb = PUT,
       url = ''https://api.spotify.com/v1/me/player/seek?position_ms=''
             @ Number_toString rt (Math_floor n),
       headers = [bearer_header token],
       payload = JsonBody (Obj [])\<rparr>]"
  using assms(4,5)
  by (simp add: seek_with_token [OF assms(1-3)] Let_def split: axios_result.splits)

lemma calls_volume:
  assumes "bearer_token req = Some token" "token \<noteq> []"
    and "body_field req ''volume_percent'' = Inr v" "v \<noteq> Undefined" "ToNumber rt v = Inr n"
  shows "calls (volume rt req upstream) =
     [\<lparr>verb = PUT,
       url = ''https://api.spotify.com/v1/me/player/volume?volume_percent=''
             @ Number_toString rt (Math_floor n),
       headers = [bearer_header token],
       payload = JsonBody (Obj [])\<rparr>]"
  using assms(4,5)
  by (simp add: volume_with_token [OF assms(1-3)] Let_def split: axios_result.splits)

lemma floor_is_truncation: "0 \<le> q \<Longrightarrow> \<lfloor>q\<rfloor> = truncate_toward_zero q"
  by (simp add: truncate_toward_zero_def)

lemma decimal_digit: "n < 10 \<Longrightarrow> decimal n = [''0123456789'' ! n]"
  by (simp add: decimal.simps)

lemma decimal_step: "10 \<le> n \<Longrightarrow> decimal n = decimal (n div 10) @ [''0123456789'' ! (n mod 10)]"
  by (subst decimal.simps) simp

text \<open>
  Claim C5, amended. For \<open>/api/seek\<close> and \<open>/api/volume\<close> with a bearer token and
  a finite numeric field, the value written into the upstream URL is the floor of the
  number, the greatest integer not above it (printed in decimal digits up to
  \<open>2^53\<close>). The floor is the truncation exactly for the numbers that are not
  negative fractions: 1500.7 is sent as 1500.
\<close>

theorem seek_volume_floor:
  assumes "bearer_token req = Some token" and "token \<noteq> []"
  shows "(body_field req ''position_ms'' = Inr (Num (Fin q)) \<longrightarrow>
            calls (handle rt Seek req upstream) =
              [\<lparr>verb = PUT,
                url = ''https://api.spotify.com/v1/me/player/seek?position_ms=''
                      @ Number_toString rt (Fin (of_int \<lfloor>q\<rfloor>)),
                headers = [(''Authorization'', ''Bearer '' @ token)],
                payload = JsonBody (Obj [])\<rparr>])
       \<and> (body_field req ''volume_percent'' = Inr (Num (Fin q)) \<longrightarrow>
            calls (handle rt Volume req upstream) =
              [\<lparr>verb = PUT,
                url = ''https://api.spotify.com/v1/me/player/volume?volume_percent=''
                      @ Number_toString rt (Fin (of_int \<lfloor>q\<rfloor>)),
                headers = [(''Authorization'', ''Bearer '' @ token)],
                payload = JsonBody (Obj [])\<rparr>])
       \<and> (\<bar>\<lfloor>q\<rfloor>\<bar> \<le> 2 ^ 53 \<longrightarrow>
            Number_toString rt (Fin (of_int \<lfloor>q\<rfloor>)) = int_toString \<lfloor>q\<rfloor>)
       \<and> (0 \<le> q \<longrightarrow> \<lfloor>q\<rfloor> = truncate_toward_zero q)"
proof (intro conjI impI)
  assume "body_field req ''position_ms'' = Inr (Num (Fin q))"
  from calls_seek [OF assms this, of rt "Fin q"]
  show "calls (handle rt Seek req upstream) =
          [\<lparr>verb = PUT,
            url = ''https://api.spotify.com/v1/me/player/seek?position_ms=''
                  @ Number_toString rt (Fin (of_int \<lfloor>q\<rfloor>)),
            headers = [(''Authorization'', ''Bearer '' @ token)],
            payload = JsonBody (Obj [])\<rparr>]"
    by (simp add: bearer_header_def)
next
  assume "body_field req ''volume_percent'' = Inr (Num (Fin q))"
  from calls_volume [OF assms this, of rt "Fin q"]
  show "calls (handle rt Volume req upstream) =
          [\<lparr>verb = PUT,
            url = ''https://api.spotify.com/v1/me/player/volume?volume_percent=''
                  @ Number_toString rt (Fin (of_int \<lfloor>q\<rfloor>)),
            headers = [(''Authorization'', ''Bearer '' @ token)],
            payload = JsonBody (Obj [])\<rparr>]"
    by (simp add: bearer_header_def)
next
  assume "\<bar>\<lfloor>q\<rfloor>\<bar> \<le> 2 ^ 53"
  then have "\<bar>(of_int \<lfloor>q\<rfloor> :: rat)\<bar> \<le> 9007199254740992"
    by (simp flip: of_int_abs add: of_int_le_numeral_iff [symmetric] del: of_int_le_numeral_iff)
  then show "Number_toString rt (Fin (of_int \<lfloor>q\<rfloor>)) = int_toString \<lfloor>q\<rfloor>"
    by (simp add: Number_toString_def)
next
  assume "0 \<le> q"
  then show "\<lfloor>q\<rfloor> = truncate_toward_zero q" by (rule floor_is_truncation)
qed

text \<open>
  The claim as stated fails for a negative fraction: -1.5 is sent as -2, and its
  truncation is -1.
\<close>

theorem seek_volume_floor_counterexample:
  "calls (handle test_runtime Seek
     \<lparr>authorization = Some ''Bearer t'', query = [],
      body = Obj [(''position_ms'', Num (Fin (- 3 / 2)))]\<rparr> (stub_upstream None))
   = [\<lparr>verb = PUT,
       url = ''https://api.spotify.com/v1/me/player/seek?position_ms=-2'',
       headers = [(''Authorization'', ''Bearer t'')],
       payload = JsonBody (Obj [])\<rparr>]
   \<and> truncate_toward_zero (- 3 / 2) = - 1"
proof -
  have fl: "\<lfloor>- (3 / 2) :: rat\<rfloor> = - 2"
    by (simp add: floor_eq_iff)
  have ce: "\<lceil>- (3 / 2) :: rat\<rceil> = - 1"
    by (simp add: ceiling_eq_iff)
  show ?thesis
    by (simp add: seek_def bearer_token_def body_field_def axios_def stub_upstream_def
          bearer_header_def Number_toString_def int_toString_def decimal_digit
          truncate_toward_zero_def fl ce)
qed

text \<open>
  The example of the specification: 1500.7 is sent as 1500 by both routes.
\<close>

theorem seek_volume_floor_witness:
  "bearer_token \<lparr>authorization = Some ''Bearer t'', query = [],
       body = Obj [(''position_ms'', Num (Fin (15007 / 10))),
                   (''volume_percent'', Num (Fin (15007 / 10)))]\<rparr> = Some ''t''
   \<and> ''t'' \<noteq> []
   \<and> calls (handle test_runtime Seek
        \<lparr>authorization = Some ''Bearer t'', query = [],
         body = Obj [(''position_ms'', Num (Fin (15007 / 10))),
                     (''volume_percent'', Num (Fin (15007 / 10)))]\<rparr> (stub_upstream None))
      = [\<lparr>verb = PUT,
          url = ''https://api.spotify.com/v1/me/player/seek?position_ms=1500'',
          headers = [(''Authorization'', ''Bearer t'')],
          payload = JsonBody (Obj [])\<rparr>]
   \<and> calls (handle test_runtime Volume
        \<lparr>authorization = Some ''Bearer t'', query = [],
         body = Obj [(''position_ms'', Num (Fin (15007 / 10))),
                     (''volume_percent'', Num (Fin (15007 / 10)))]\<rparr> (stub_upstream None))
      = [\<lparr>verb = PUT,
          url = ''https://api.spotify.com/v1/me/player/volume?volume_percent=1500'',
          headers = [(''Authorization'', ''Bearer t'')],
          payload = JsonBody (Obj [])\<rparr>]
   \<and> truncate_toward_zero (15007 / 10) = 1500"
proof -
  have fl: "\<lfloor>15007 / 10 :: rat\<rfloor> = 1500"
    by (simp add: floor_eq_iff)
  have tok: "bearer_token \<lparr>authorization = Some ''Bearer t'', query = [],
       body = Obj [(''position_ms'', Num (Fin (15007 / 10))),
                   (''volume_percent'', Num (Fin (15007 / 10)))]\<rparr> = Some ''t''"
    by (simp add: bearer_token_def)
  have ne: "''t'' \<noteq> []" by simp
  have dec: "int_toString 1500 = ''1500''"
    by (simp add: int_toString_def decimal_step decimal_digit)
  show ?thesis
    using seek_volume_floor [OF tok ne, where q = "15007 / 10" and rt = test_runtime
            and upstream = "stub_upstream None"] tok
    by (simp add: body_field_def fl dec)
qed

lemma body_field_defined:
  "body req \<noteq> Undefined \<Longrightarrow> body req \<noteq> Null \<Longrightarrow>
   body_field req k = Inr (get_property (body req) k)"
  by (simp add: body_field_def)

text \<open>
  Claim C10, amended. For \<open>/api/seek\<close> and \<open>/api/volume\<close> with a bearer token and
  a defined body, the validation response (status 400 with the message of the missing
  field, no upstream call) is sent if and only if the field is \<open>undefined\<close>. Every
  other value whose conversion to a number does not throw goes upstream as the floor of
  that number; \<open>null\<close> and every string convert, \<open>null\<close> is sent as 0, and a string
  that denotes no number as \<open>NaN\<close>.
\<close>

theorem seek_volume_validation:
  assumes "bearer_token req = Some token" and "token \<noteq> []"
    and "body req \<noteq> Undefined" and "body req \<noteq> Null"
  shows "(response (handle rt Seek req upstream)
            = Json 400 (Obj [(''error'', Str ''No position provided'')])
          \<longleftrightarrow> get_property (body req) ''position_ms'' = Undefined)
       \<and> (response (handle rt Volume req upstream)
            = Json 400 (Obj [(''error'', Str ''No volume provided'')])
          \<longleftrightarrow> get_property (body req) ''volume_percent'' = Undefined)
       \<and> (get_property (body req) ''position_ms'' = Undefined \<longrightarrow>
            calls (handle rt Seek req upstream) = [])
       \<and> (get_property (body req) ''volume_percent'' = Undefined \<longrightarrow>
            calls (handle rt Volume req upstream) = [])
       \<and> (get_property (body req) ''position_ms'' \<noteq> Undefined
            \<and> ToNumber rt (get_property (body req) ''position_ms'') = Inr n \<longrightarrow>
            map url (calls (handle rt Seek req upstream)) =
              [''https://api.spotify.com/v1/me/player/seek?position_ms=''
               @ Number_toString rt (Math_floor n)])
       \<and> (get_property (body req) ''volume_percent'' \<noteq> Undefined
            \<and> ToNumber rt (get_property (body req) ''volume_percent'') = Inr n \<longrightarrow>
            map url (calls (handle rt Volume req upstream)) =
              [''https://api.spotify.com/v1/me/player/volume?volume_percent=''
               @ Number_toString rt (Math_floor n)])
       \<and> ToNumber rt Null = Inr (Fin 0)
       \<and> Number_toString rt (Math_floor (Fin 0)) = ''0''
       \<and> ToNumber rt (Str s) = Inr (StringToNumber rt s)
       \<and> (StringToNumber rt s = NaN \<longrightarrow>
            Number_toString rt (Math_floor (StringToNumber rt s)) = ''NaN'')"
proof (intro conjI impI)
  note pos = body_field_defined [OF assms(3,4), of "''position_ms''"]
  note vol = body_field_defined [OF assms(3,4), of "''volume_percent''"]
  show "response (handle rt Seek req upstream)
          = Json 400 (Obj [(''error'', Str ''No position provided'')])
        \<longleftrightarrow> get_property (body req) ''position_ms'' = Undefined"
    by (simp add: seek_with_token [OF assms(1,2) pos] bad_request_def success_def failure_def
          Let_def split: axios_result.splits sum.splits)
  show "response (handle rt Volume req upstream)
          = Json 400 (Obj [(''error'', Str ''No volume provided'')])
        \<longleftrightarrow> get_property (body req) ''volume_percent'' = Undefined"
    by (simp add: volume_with_token [OF assms(1,2) vol] bad_request_def success_def failure_def
          Let_def split: axios_result.splits sum.splits)
  {
    assume "get_property (body req) ''position_ms'' = Undefined"
    then show "calls (handle rt Seek req upstream) = []"
      by (simp add: seek_with_token [OF assms(1,2) pos] bad_request_def)
  }
  {
    assume "get_property (body req) ''volume_percent'' = Undefined"
    then show "calls (handle rt Volume req upstream) = []"
      by (simp add: volume_with_token [OF assms(1,2) vol] bad_request_def)
  }
  {
    assume "get_property (body req) ''position_ms'' \<noteq> Undefined
            \<and> ToNumber rt (get_property (body req) ''position_ms'') = Inr n"
    then have "calls (seek rt req upstream) =
        [\<lparr>verb = PUT,
          url = ''https://api.spotify.com/v1/me/player/seek?position_ms=''
                @ Number_toString rt (Math_floor n),
          headers = [bearer_header token], payload = JsonBody (Obj [])\<rparr>]"
      using calls_seek [OF assms(1,2) pos] by simp
    then show "map url (calls (handle rt Seek req upstream)) =
        [''https://api.spotify.com/v1/me/player/seek?position_ms=''
         @ Number_toString rt (Math_floor n)]"
      by simp
  }
  {
    assume "get_property (body req) ''volume_percent'' \<noteq> Undefined
            \<and> ToNumber rt (get_property (body req) ''volume_percent'') = Inr n"
    then have "calls (volume rt req upstream) =
        [\<lparr>verb = PUT,
          url = ''https://api.spotify.com/v1/me/player/volume?volume_percent=''
                @ Number_toString rt (Math_floor n),
          headers = [bearer_header token], payload = JsonBody (Obj [])\<rparr>]"
      using calls_volume [OF assms(1,2) vol] by simp
    then show "map url (calls (handle rt Volume req upstream)) =
        [''https://api.spotify.com/v1/me/player/volume?volume_percent=''
         @ Number_toString rt (Math_floor n)]"
      by simp
  }
  show "ToNumber rt Null = Inr (Fin 0)" by simp
  show "Number_toString rt (Math_floor (Fin 0)) = ''0''"
    by (simp add: Number_toString_def int_toString_def decimal_digit)
  show "ToNumber rt (Str s) = Inr (StringToNumber rt s)" by simp
  {
    assume "StringToNumber rt s = NaN"
    then show "Number_toString rt (Math_floor (StringToNumber rt s)) = ''NaN''"
      by (simp add: Number_toString_def)
  }
qed

text \<open>
  The claim as stated fails for a value whose conversion to a number throws: the
  object \<open>{toString: 1}\<close> is not \<open>undefined\<close> and passes the validation, but
  \<open>Math.floor\<close> throws on it, and the catch block answers 500 without any
  upstream call.
\<close>

theorem seek_volume_validation_counterexample:
  "get_property (Obj [(''volume_percent'', Obj [(''toString'', Num (Fin 1))])]) ''volume_percent''
     \<noteq> Undefined
   \<and> handle test_runtime Volume
        \<lparr>authorization = Some ''Bearer t'', query = [],
         body = Obj [(''volume_percent'', Obj [(''toString'', Num (Fin 1))])]\<rparr>
        (stub_upstream (Some \<lparr>status = 204, data = Str []\<rparr>))
      = \<lparr>response = Json 500 (Obj [(''error'', Str ''Volume change failed''),
                                    (''details'', Undefined)]),
         calls = []\<rparr>"
  by (simp add: volume_def bearer_token_def body_field_def failure_def error_status_def
        error_data_def)

text \<open>
  A body with \<open>position_ms: null\<close> and no \<open>volume_percent\<close>.
\<close>

theorem seek_volume_validation_witness:
  "bearer_token \<lparr>authorization = Some ''Bearer t'', query = [],
       body = Obj [(''position_ms'', Null)]\<rparr> = Some ''t''
   \<and> ''t'' \<noteq> []
   \<and> body \<lparr>authorization = Some ''Bearer t'', query = [],
       body = Obj [(''position_ms'', Null)]\<rparr> \<noteq> Undefined
   \<and> body \<lparr>authorization = Some ''Bearer t'', query = [],
       body = Obj [(''position_ms'', Null)]\<rparr> \<noteq> Null
   \<and> response (handle test_runtime Seek
        \<lparr>authorization = Some ''Bearer t'', query = [], body = Obj [(''position_ms'', Null)]\<rparr>
        (stub_upstream None))
      \<noteq> Json 400 (Obj [(''error'', Str ''No position provided'')])
   \<and> response (handle test_runtime Volume
        \<lparr>authorization = Some ''Bearer t'', query = [], body = Obj [(''position_ms'', Null)]\<rparr>
        (stub_upstream None))
      = Json 400 (Obj [(''error'', Str ''No volume provided'')])
   \<and> calls (handle test_runtime Volume
        \<lparr>authorization = Some ''Bearer t'', query = [], body = Obj [(''position_ms'', Null)]\<rparr>
        (stub_upstream None)) = []
   \<and> map url (calls (handle test_runtime Seek
        \<lparr>authorization = Some ''Bearer t'', query = [], body = Obj [(''position_ms'', Null)]\<rparr>
        (stub_upstream None)))
      = [''https://api.spotify.com/v1/me/player/seek?position_ms=0'']
   \<and> StringToNumber test_runtime ''abc'' = NaN
   \<and> Number_toString test_runtime (Math_floor (StringToNumber test_runtime ''abc'')) = ''NaN''"
proof -
  have tok: "bearer_token \<lparr>authorization = Some ''Bearer t'', query = [],
       body = Obj [(''position_ms'', Null)]\<rparr> = Some ''t''"
    by (simp add: bearer_token_def)
  have ne: "''t'' \<noteq> []" by simp
  have b1: "body \<lparr>authorization = Some ''Bearer t'', query = [],
       body = Obj [(''position_ms'', Null)]\<rparr> \<noteq> Undefined" by simp
  have b2: "body \<lparr>authorization = Some ''Bearer t'', query = [],
       body = Obj [(''position_ms'', Null)]\<rparr> \<noteq> Null" by simp
  have nan: "StringToNumber test_runtime ''abc'' = NaN"
    by (simp add: test_runtime_def)
  show ?thesis
    using seek_volume_validation [OF tok ne b1 b2, where rt = test_runtime
            and upstream = "stub_upstream None" and s = "''abc''" and n = "Fin 0"] tok nan
    by simp
qed

lemma q_truthy_iff: "q_truthy q \<longleftrightarrow> q \<noteq> None \<and> q \<noteq> Some (QStr [])"
  by (cases q rule: q_truthy.cases) auto

text \<open>
  Claim C9, amended. For \<open>/api/search\<close> with a bearer token: when \<open>q\<close> is absent or
  the empty string, the response is 400 with the message \<open>No search query provided\<close>
  and no upstream call is made; for every other \<open>q\<close> whose conversion to a string
  succeeds, as it does for every string, exactly one upstream GET is made, its URL holds
  the query encoded by \<open>encodeURIComponent\<close>, and when the call succeeds the response
  is the upstream data, unchanged, with status 200.
\<close>

theorem search_validation_and_relay:
  assumes "bearer_token req = Some token" and "token \<noteq> []"
  shows "(map_of (query req) ''q'' = None \<or> map_of (query req) ''q'' = Some (QStr []) \<longrightarrow>
            handle rt Search req upstream =
              \<lparr>response = Json 400 (Obj [(''error'', Str ''No search query provided'')]),
               calls = []\<rparr>)
       \<and> (map_of (query req) ''q'' = Some q \<and> q \<noteq> QStr [] \<and> q_toString q = Inr qtext \<longrightarrow>
            (let call = \<lparr>verb = GET,
                         url = ''https://api.spotify.com/v1/search?q=''
                               @ encodeURIComponent qtext
                               @ ''&type=track,album,artist&limit=20'',
                         headers = [(''Authorization'', ''Bearer '' @ token)],
                         payload = NoBody\<rparr>
             in calls (handle rt Search req upstream) = [call]
                \<and> (\<forall>r. upstream call = Some r \<and> validateStatus (status r) \<longrightarrow>
                      response (handle rt Search req upstream) = Json 200 (data r))))
       \<and> q_toString (QStr qtext) = Inr qtext"
proof (intro conjI impI)
  assume "map_of (query req) ''q'' = None \<or> map_of (query req) ''q'' = Some (QStr [])"
  then have "\<not> q_truthy (map_of (query req) ''q'')"
    by (simp add: q_truthy_iff)
  with assms show "handle rt Search req upstream =
      \<lparr>response = Json 400 (Obj [(''error'', Str ''No search query provided'')]), calls = []\<rparr>"
    by (simp add: search_def bad_request_def Let_def)
next
  assume q: "map_of (query req) ''q'' = Some q \<and> q \<noteq> QStr [] \<and> q_toString q = Inr qtext"
  then have "q_truthy (map_of (query req) ''q'')"
    by (simp add: q_truthy_iff)
  with assms q show "let call = \<lparr>verb = GET,
                         url = ''https://api.spotify.com/v1/search?q=''
                               @ encodeURIComponent qtext
                               @ ''&type=track,album,artist&limit=20'',
                         headers = [(''Authorization'', ''Bearer '' @ token)],
                         payload = NoBody\<rparr>
             in calls (handle rt Search req upstream) = [call]
                \<and> (\<forall>r. upstream call = Some r \<and> validateStatus (status r) \<longrightarrow>
                      response (handle rt Search req upstream) = Json 200 (data r))"
    by (auto simp: search_def Let_def bearer_header_def axios_def split: option.splits)
next
  show "q_toString (QStr qtext) = Inr qtext" by simp
qed

text \<open>
  The claim as stated fails for \<open>/api/search?q[toString]=x\<close>, which the extended
  query parser turns into the object \<open>{toString: "x"}\<close>: \<open>q\<close> is neither absent
  nor empty, \<open>encodeURIComponent\<close> throws on it inside the \<open>try\<close> block, and
  the catch block answers 500 without any upstream call.
\<close>

theorem search_validation_and_relay_counterexample:
  "map_of (query \<lparr>authorization = Some ''Bearer t'',
       query = [(''q'', QObj [(''toString'', QStr ''x'')])], body = Undefined\<rparr>) ''q''
     = Some (QObj [(''toString'', QStr ''x'')])
   \<and> handle test_runtime Search
        \<lparr>authorization = Some ''Bearer t'',
         query = [(''q'', QObj [(''toString'', QStr ''x'')])], body = Undefined\<rparr>
        (stub_upstream (Some \<lparr>status = 200, data = Obj []\<rparr>))
      = \<lparr>response = Json 500 (Obj [(''error'', Str ''Search failed''), (''details'', Undefined)]),
         calls = []\<rparr>"
  by (simp add: search_def bearer_token_def failure_def error_status_def error_data_def)

text \<open>
  The example of the specification, \<open>q = "daft punk"\<close>, and a request without
  \<open>q\<close>.
\<close>

theorem search_validation_and_relay_witness:
  "bearer_token \<lparr>authorization = Some ''Bearer t'', query = [(''q'', QStr ''daft punk'')],
       body = Obj []\<rparr> = Some ''t''
   \<and> ''t'' \<noteq> []
   \<and> map_of (query \<lparr>authorization = Some ''Bearer t'', query = [(''q'', QStr ''daft punk'')],
       body = Obj []\<rparr>) ''q'' = Some (QStr ''daft punk'')
   \<and> QStr ''daft punk'' \<noteq> QStr []
   \<and> q_toString (QStr ''daft punk'') = Inr ''daft punk''
   \<and> calls (handle test_runtime Search
        \<lparr>authorization = Some ''Bearer t'', query = [(''q'', QStr ''daft punk'')],
         body = Obj []\<rparr>
        (stub_upstream (Some \<lparr>status = 200, data = Obj [(''tracks'', Arr [])]\<rparr>)))
      = [\<lparr>verb = GET,
          url = ''https://api.spotify.com/v1/search?q=daft%20punk&type=track,album,artist&limit=20'',
          headers = [(''Authorization'', ''Bearer t'')],
          payload = NoBody\<rparr>]
   \<and> response (handle test_runtime Search
        \<lparr>authorization = Some ''Bearer t'', query = [(''q'', QStr ''daft punk'')],
         body = Obj []\<rparr>
        (stub_upstream (Some \<lparr>status = 200, data = Obj [(''tracks'', Arr [])]\<rparr>)))
      = Json 200 (Obj [(''tracks'', Arr [])])
   \<and> map_of (query \<lparr>authorization = Some ''Bearer t'', query = [], body = Obj []\<rparr>) ''q'' = None
   \<and> handle test_runtime Search \<lparr>authorization = Some ''Bearer t'', query = [], body = Obj []\<rparr>
        (stub_upstream None)
      = \<lparr>response = Json 400 (Obj [(''error'', Str ''No search query provided'')]), calls = []\<rparr>"
proof -
  have tok: "bearer_token \<lparr>authorization = Some ''Bearer t'',
       query = [(''q'', QStr ''daft punk'')], body = Obj []\<rparr> = Some ''t''"
    by (simp add: bearer_token_def)
  have tok': "bearer_token \<lparr>authorization = Some ''Bearer t'', query = [], body = Obj []\<rparr>
       = Some ''t''"
    by (simp add: bearer_token_def)
  have ne: "''t'' \<noteq> []" by simp
  have enc: "encodeURIComponent ''daft punk'' = ''daft%20punk''"
    by (simp add: encodeURIComponent_def uri_unreserved_def alphanumeric_def percent_byte_def
          hex_digit_def)
  show ?thesis
    using search_validation_and_relay [OF tok ne, where q = "QStr ''daft punk''"
            and qtext = "''daft punk''" and rt = test_runtime
            and upstream = "stub_upstream (Some \<lparr>status = 200, data = Obj [(''tracks'', Arr [])]\<rparr>)"]
          search_validation_and_relay [OF tok' ne, where q = "QStr ''daft punk''"
            and qtext = "''daft punk''" and rt = test_runtime and upstream = "stub_upstream None"]
          tok
    by (simp add: enc stub_upstream_def validateStatus_def Let_def)
qed







text \<open>
  Claim C6. The claim asks that a track-scoped \<open>uri\<close> be sent as \<open>{uris: [uri]}\<close>
  and every other one, a playlist or an album, as \<open>{context_uri: uri}\<close>. The handler
  decides by \<open>uri.includes('track:')\<close>, which looks for the text anywhere in the
  identifier: the playlist \<open>spotify:user:soundtrack:playlist:xyz\<close> of the user
  \<open>soundtrack\<close> is not a track identifier, yet it holds \<open>track:\<close> and is sent in
  \<open>uris\<close>.
\<close>

theorem play_playlist_sent_as_track:
  "\<not> prefix ''spotify:track:'' ''spotify:user:soundtrack:playlist:xyz''
   \<and> includes_str ''spotify:user:soundtrack:playlist:xyz'' ''track:''
   \<and> calls (handle test_runtime Play
        \<lparr>authorization = Some ''Bearer t'', query = [],
         body = Obj [(''uri'', Str ''spotify:user:soundtrack:playlist:xyz'')]\<rparr>
        (stub_upstream (Some \<lparr>status = 204, data = Str []\<rparr>)))
      = [\<lparr>verb = PUT, url = ''https://api.spotify.com/v1/me/player/play'',
          headers = [(''Authorization'', ''Bearer t''), (''Content-Type'', ''application/json'')],
          payload = JsonBody
            (Obj [(''uris'', Arr [Str ''spotify:user:soundtrack:playlist:xyz''])])\<rparr>]"
  by (simp add: play_def bearer_token_def body_field_def play_payload_def axios_def
        stub_upstream_def validateStatus_def bearer_header_def)

text \<open>
  What the handler does with a string: the payload is chosen by the occurrence of
  \<open>track:\<close>, and an empty string is sent as no \<open>uri\<close> at all.
\<close>

lemma play_payload_string:
  "play_payload (Str s) =
     Inr (if s = [] then Obj []
          else if includes_str s ''track:'' then Obj [(''uris'', Arr [Str s])]
          else Obj [(''context_uri'', Str s)])"
  by (simp add: play_payload_def)

section \<open>Properties of the OAuth callback\<close>

lemma form_encode_names:
  "form_encode ''access_token'' = ''access_token''"
  "form_encode ''refresh_token'' = ''refresh_token''"
  by (simp_all add: form_encode_def form_byte_def alphanumeric_def)

lemma truthy_property_present:
  "truthy (get_property d k) \<Longrightarrow> \<exists>kvs v. d = Obj kvs \<and> map_of kvs k = Some v"
  by (cases d) (auto split: option.splits)

lemma destructure_tokens_defined:
  "d \<noteq> Null \<Longrightarrow> d \<noteq> Undefined \<Longrightarrow>
   destructure_tokens d = Inr (get_property d ''access_token'', get_property d ''refresh_token'')"
  by (cases d) simp_all

lemma callback_without_error:
  assumes "map_of (query req) ''error'' = None"
  shows "callback cfg rt req upstream =
     (if \<not> q_truthy (map_of (query req) ''code'') then
        \<lparr>response = Redirect (FRONTEND_URL cfg @ ''/?error=no_code''), calls = []\<rparr>
      else
        case axios upstream (token_request cfg (map_of (query req) ''code'')) of
          Resolved r \<Rightarrow>
            (case destructure_tokens (data r) of
               Inl err \<Rightarrow>
                 \<lparr>response = Redirect (FRONTEND_URL cfg @ ''/?error=auth_failed''),
                  calls = [token_request cfg (map_of (query req) ''code'')]\<rparr>
             | Inr (access_token, refresh_token) \<Rightarrow>
                 (case token_params rt access_token refresh_token of
                    Inl err \<Rightarrow>
                      \<lparr>response = Redirect (FRONTEND_URL cfg @ ''/?error=auth_failed''),
                       calls = [token_request cfg (map_of (query req) ''code'')]\<rparr>
                  | Inr params \<Rightarrow>
                      \<lparr>response = Redirect (FRONTEND_URL cfg @ ''/?''
                          @ URLSearchParams_toString params),
                       calls = [token_request cfg (map_of (query req) ''code'')]\<rparr>))
        | Rejected e \<Rightarrow>
            \<lparr>response = Redirect (FRONTEND_URL cfg @ ''/?error=auth_failed''),
             calls = [token_request cfg (map_of (query req) ''code'')]\<rparr>)"
  using assms by (simp add: callback_def Let_def)

lemma callback_without_error_redirects:
  "map_of (query req) ''error'' = None \<Longrightarrow>
   \<exists>target. response (callback cfg rt req upstream) = Redirect target"
  by (simp add: callback_without_error split: axios_result.splits sum.splits prod.splits)

lemma callback_calls: "length (calls (callback cfg rt req upstream)) \<le> 1"
  by (simp add: callback_def Let_def split: axios_result.splits sum.splits prod.splits)

text \<open>
  Claim C2, amended. Without an \<open>error\<close> parameter the callback answers with one
  redirect, never with a JSON body, and makes at most one upstream call. With a non-empty
  \<open>code\<close> it makes the token exchange. When the exchange succeeds with data other
  than \<open>null\<close> whose tokens convert to strings, the redirect goes to the frontend
  with the query \<open>access_token=...\<close>, followed by \<open>&refresh_token=...\<close> exactly
  when the refresh token of the upstream data is truthy, so only when the data has one;
  no other parameter is written, so the expiry is not forwarded. When the exchange fails
  (no response, or a status outside 200 to 299), and when reading or converting the
  tokens of a successful exchange throws, the redirect goes to
  \<open><frontend>/?error=auth_failed\<close>.
\<close>

theorem callback_exchange:
  assumes "map_of (query req) ''error'' = None"
  shows "(\<exists>target. response (callback cfg rt req upstream) = Redirect target)
   \<and> length (calls (callback cfg rt req upstream)) \<le> 1
   \<and> (map_of (query req) ''code'' = Some c \<and> c \<noteq> QStr [] \<longrightarrow>
        calls (callback cfg rt req upstream) = [token_request cfg (Some c)]
        \<and> (\<forall>r a. upstream (token_request cfg (Some c)) = Some r \<and> validateStatus (status r)
                 \<and> data r \<noteq> Null \<and> data r \<noteq> Undefined
                 \<and> ToString rt (get_property (data r) ''access_token'') = Inr a
                 \<and> \<not> truthy (get_property (data r) ''refresh_token'') \<longrightarrow>
              response (callback cfg rt req upstream) =
                Redirect (FRONTEND_URL cfg @ ''/?access_token='' @ form_encode a))
        \<and> (\<forall>r a f. upstream (token_request cfg (Some c)) = Some r \<and> validateStatus (status r)
                 \<and> data r \<noteq> Null \<and> data r \<noteq> Undefined
                 \<and> ToString rt (get_property (data r) ''access_token'') = Inr a
                 \<and> truthy (get_property (data r) ''refresh_token'')
                 \<and> ToString rt (get_property (data r) ''refresh_token'') = Inr f \<longrightarrow>
              response (callback cfg rt req upstream) =
                Redirect (FRONTEND_URL cfg @ ''/?access_token='' @ form_encode a
                  @ ''&refresh_token='' @ form_encode f)
              \<and> (\<exists>kvs v. data r = Obj kvs \<and> map_of kvs ''refresh_token'' = Some v))
        \<and> (upstream (token_request cfg (Some c)) = None
            \<or> (\<exists>r. upstream (token_request cfg (Some c)) = Some r
                    \<and> \<not> validateStatus (status r)) \<longrightarrow>
              response (callback cfg rt req upstream) =
                Redirect (FRONTEND_URL cfg @ ''/?error=auth_failed''))
        \<and> (\<forall>r. upstream (token_request cfg (Some c)) = Some r \<and> validateStatus (status r)
                 \<and> (data r = Null \<or> data r = Undefined
                     \<or> ToString rt (get_property (data r) ''access_token'') = Inl TypeError
                     \<or> truthy (get_property (data r) ''refresh_token'')
                        \<and> ToString rt (get_property (data r) ''refresh_token'') = Inl TypeError)
                 \<longrightarrow>
              response (callback cfg rt req upstream) =
                Redirect (FRONTEND_URL cfg @ ''/?error=auth_failed'')))"
proof (intro conjI impI allI)
  show "\<exists>target. response (callback cfg rt req upstream) = Redirect target"
    by (rule callback_without_error_redirects [OF assms])
  show "length (calls (callback cfg rt req upstream)) \<le> 1"
    by (rule callback_calls)
next
  assume "map_of (query req) ''code'' = Some c \<and> c \<noteq> QStr []"
  then show "calls (callback cfg rt req upstream) = [token_request cfg (Some c)]"
    by (simp add: callback_without_error [OF assms] q_truthy_iff
          split: axios_result.splits sum.splits prod.splits)
next
  fix r a
  assume c: "map_of (query req) ''code'' = Some c \<and> c \<noteq> QStr []"
  assume r: "upstream (token_request cfg (Some c)) = Some r \<and> validateStatus (status r)
             \<and> data r \<noteq> Null \<and> data r \<noteq> Undefined
             \<and> ToString rt (get_property (data r) ''access_token'') = Inr a
             \<and> \<not> truthy (get_property (data r) ''refresh_token'')"
  then have "axios upstream (token_request cfg (Some c)) = Resolved r"
    by (simp add: axios_def)
  with c r show "response (callback cfg rt req upstream) =
      Redirect (FRONTEND_URL cfg @ ''/?access_token='' @ form_encode a)"
    by (simp add: callback_without_error [OF assms] q_truthy_iff destructure_tokens_defined
          token_params_def URLSearchParams_toString_def form_encode_names)
next
  fix r a f
  assume c: "map_of (query req) ''code'' = Some c \<and> c \<noteq> QStr []"
  assume r: "upstream (token_request cfg (Some c)) = Some r \<and> validateStatus (status r)
             \<and> data r \<noteq> Null \<and> data r \<noteq> Undefined
             \<and> ToString rt (get_property (data r) ''access_token'') = Inr a
             \<and> truthy (get_property (data r) ''refresh_token'')
             \<and> ToString rt (get_property (data r) ''refresh_token'') = Inr f"
  then have "axios upstream (token_request cfg (Some c)) = Resolved r"
    by (simp add: axios_def)
  with c r show "response (callback cfg rt req upstream) =
      Redirect (FRONTEND_URL cfg @ ''/?access_token='' @ form_encode a
        @ ''&refresh_token='' @ form_encode f)"
    by (simp add: callback_without_error [OF assms] q_truthy_iff destructure_tokens_defined
          token_params_def URLSearchParams_toString_def form_encode_names)
  from r have "truthy (get_property (data r) ''refresh_token'')" by simp
  then show "\<exists>kvs v. data r = Obj kvs \<and> map_of kvs ''refresh_token'' = Some v"
    by (rule truthy_property_present)
next
  assume c: "map_of (query req) ''code'' = Some c \<and> c \<noteq> QStr []"
  assume "upstream (token_request cfg (Some c)) = None
          \<or> (\<exists>r. upstream (token_request cfg (Some c)) = Some r \<and> \<not> validateStatus (status r))"
  then have "\<exists>e. axios upstream (token_request cfg (Some c)) = Rejected e"
    by (auto simp: axios_def)
  with c show "response (callback cfg rt req upstream) =
      Redirect (FRONTEND_URL cfg @ ''/?error=auth_failed'')"
    by (auto simp: callback_without_error [OF assms] q_truthy_iff)
next
  fix r
  assume c: "map_of (query req) ''code'' = Some c \<and> c \<noteq> QStr []"
  assume r: "upstream (token_request cfg (Some c)) = Some r \<and> validateStatus (status r)
             \<and> (data r = Null \<or> data r = Undefined
                 \<or> ToString rt (get_property (data r) ''access_token'') = Inl TypeError
                 \<or> truthy (get_property (data r) ''refresh_token'')
                    \<and> ToString rt (get_property (data r) ''refresh_token'') = Inl TypeError)"
  then have ax: "axios upstream (token_request cfg (Some c)) = Resolved r"
    by (simp add: axios_def)
  show "response (callback cfg rt req upstream) =
      Redirect (FRONTEND_URL cfg @ ''/?error=auth_failed'')"
  proof (cases "data r = Null \<or> data r = Undefined")
    case True
    with c ax show ?thesis
      by (auto simp: callback_without_error [OF assms] q_truthy_iff)
  next
    case False
    with r have "\<exists>err. token_params rt (get_property (data r) ''access_token'')
                   (get_property (data r) ''refresh_token'') = Inl err"
      by (auto simp: token_params_def split: sum.splits)
    with c ax False show ?thesis
      by (auto simp: callback_without_error [OF assms] q_truthy_iff destructure_tokens_defined)
  qed
qed

text \<open>
  The claim as stated fails for a successful exchange whose body is \<open>null\<close>, and for
  one whose \<open>access_token\<close> is an object with a key \<open>toString\<close>: reading or
  converting the tokens throws inside the \<open>try\<close> block, and the redirect is the one
  of a failed exchange, without \<open>access_token\<close>.
\<close>

theorem callback_exchange_counterexample:
  "map_of (query \<lparr>authorization = None, query = [(''code'', QStr ''abc123'')],
       body = Undefined\<rparr>) ''error'' = None
   \<and> validateStatus 200
   \<and> callback test_config test_runtime
        \<lparr>authorization = None, query = [(''code'', QStr ''abc123'')], body = Undefined\<rparr>
        (stub_upstream (Some \<lparr>status = 200, data = Null\<rparr>))
      = \<lparr>response = Redirect ''http://localhost:3000/?error=auth_failed'',
         calls = [token_request test_config (Some (QStr ''abc123''))]\<rparr>
   \<and> callback test_config test_runtime
        \<lparr>authorization = None, query = [(''code'', QStr ''abc123'')], body = Undefined\<rparr>
        (stub_upstream (Some \<lparr>status = 200,
           data = Obj [(''access_token'', Obj [(''toString'', Num (Fin 1))])]\<rparr>))
      = \<lparr>response = Redirect ''http://localhost:3000/?error=auth_failed'',
         calls = [token_request test_config (Some (QStr ''abc123''))]\<rparr>"
  by (simp add: callback_def axios_def stub_upstream_def validateStatus_def test_config_def
        token_params_def)

text \<open>
  The two examples of the specification: tokens \<open>T\<close> and \<open>R\<close>, and an
  upstream 400.
\<close>

theorem callback_exchange_witness:
  "map_of (query \<lparr>authorization = None, query = [(''code'', QStr ''abc123'')],
       body = Undefined\<rparr>) ''error'' = None
   \<and> map_of (query \<lparr>authorization = None, query = [(''code'', QStr ''abc123'')],
       body = Undefined\<rparr>) ''code'' = Some (QStr ''abc123'')
   \<and> QStr ''abc123'' \<noteq> QStr []
   \<and> validateStatus 200
   \<and> callback test_config test_runtime
        \<lparr>authorization = None, query = [(''code'', QStr ''abc123'')], body = Undefined\<rparr>
        (stub_upstream (Some \<lparr>status = 200,
           data = Obj [(''access_token'', Str ''T''), (''refresh_token'', Str ''R''),
                       (''expires_in'', Num (Fin 3600))]\<rparr>))
      = \<lparr>response = Redirect ''http://localhost:3000/?access_token=T&refresh_token=R'',
         calls = [token_request test_config (Some (QStr ''abc123''))]\<rparr>
   \<and> \<not> validateStatus 400
   \<and> callback test_config test_runtime
        \<lparr>authorization = None, query = [(''code'', QStr ''abc123'')], body = Undefined\<rparr>
        (stub_upstream (Some \<lparr>status = 400, data = Obj [(''error'', Str ''invalid_grant'')]\<rparr>))
      = \<lparr>response = Redirect ''http://localhost:3000/?error=auth_failed'',
         calls = [token_request test_config (Some (QStr ''abc123''))]\<rparr>"
proof -
  have enc: "form_encode ''T'' = ''T''" "form_encode ''R'' = ''R''"
    by (simp_all add: form_encode_def form_byte_def alphanumeric_def)
  have front: "FRONTEND_URL test_config = ''http://localhost:3000''"
    by (simp add: test_config_def)
  have noerr: "map_of (query \<lparr>authorization = None, query = [(''code'', QStr ''abc123'')],
       body = Undefined\<rparr>) ''error'' = None"
    by simp
  have eq: "\<And>o1 r cs. response o1 = r \<and> calls o1 = cs \<Longrightarrow> o1 = \<lparr>response = r, calls = cs\<rparr>"
    by auto
  show ?thesis
    using callback_exchange [OF noerr, where cfg = test_config and rt = test_runtime
            and c = "QStr ''abc123''"
            and upstream = "stub_upstream (Some \<lparr>status = 200,
               data = Obj [(''access_token'', Str ''T''), (''refresh_token'', Str ''R''),
                           (''expires_in'', Num (Fin 3600))]\<rparr>)"]
          callback_exchange [OF noerr, where cfg = test_config and rt = test_runtime
            and c = "QStr ''abc123''"
            and upstream = "stub_upstream (Some \<lparr>status = 400,
               data = Obj [(''error'', Str ''invalid_grant'')]\<rparr>)"]
    by (auto simp: stub_upstream_def validateStatus_def enc front intro!: eq)
qed

text \<open>
  Claim C7, amended. A callback request with a non-empty \<open>error\<close> parameter whose
  value converts to a string, as every string does, is redirected to
  \<open><frontend>/?error=<value>\<close> without an upstream call; a request whose
  \<open>error\<close> and \<open>code\<close> parameters are both absent or empty is redirected to
  \<open><frontend>/?error=no_code\<close> without an upstream call.
\<close>

theorem callback_error_or_no_code:
  "(map_of (query req) ''error'' = Some e \<and> e \<noteq> QStr [] \<and> q_toString e = Inr s \<longrightarrow>
      callback cfg rt req upstream =
        \<lparr>response = Redirect (FRONTEND_URL cfg @ ''/?error='' @ s), calls = []\<rparr>)
   \<and> ((map_of (query req) ''error'' = None \<or> map_of (query req) ''error'' = Some (QStr []))
       \<and> (map_of (query req) ''code'' = None \<or> map_of (query req) ''code'' = Some (QStr [])) \<longrightarrow>
      callback cfg rt req upstream =
        \<lparr>response = Redirect (FRONTEND_URL cfg @ ''/?error=no_code''), calls = []\<rparr>)
   \<and> q_toString (QStr s) = Inr s"
  by (auto simp: callback_def Let_def q_truthy_iff)

text \<open>
  The claim as stated fails for \<open>/callback?error=&code=abc123\<close>: the request
  carries an \<open>error\<close> parameter, its empty value is falsy, and the handler goes on
  to the token exchange. It also fails for \<open>/callback?error[toString]=x\<close>, which
  the extended query parser turns into the object \<open>{toString: "x"}\<close>: the template
  literal that builds the redirect target throws outside the \<open>try\<close> block, and no
  redirect is sent.
\<close>

theorem callback_error_or_no_code_counterexample:
  "map_of (query \<lparr>authorization = None,
       query = [(''error'', QStr []), (''code'', QStr ''abc123'')], body = Undefined\<rparr>) ''error''
     = Some (QStr [])
   \<and> callback test_config test_runtime
        \<lparr>authorization = None, query = [(''error'', QStr []), (''code'', QStr ''abc123'')],
         body = Undefined\<rparr>
        (stub_upstream (Some \<lparr>status = 200, data = Obj [(''access_token'', Str ''T'')]\<rparr>))
      = \<lparr>response = Redirect ''http://localhost:3000/?access_token=T'',
         calls = [token_request test_config (Some (QStr ''abc123''))]\<rparr>
   \<and> callback test_config test_runtime
        \<lparr>authorization = None, query = [(''error'', QObj [(''toString'', QStr ''x'')])],
         body = Undefined\<rparr>
        (stub_upstream None)
      = \<lparr>response = Thrown TypeError, calls = []\<rparr>"
  by (simp add: callback_def axios_def stub_upstream_def validateStatus_def test_config_def
        token_params_def URLSearchParams_toString_def form_encode_def form_byte_def
        alphanumeric_def)

text \<open>
  The example of the specification, \<open>/callback?error=access_denied\<close>, and a
  request without parameters.
\<close>

theorem callback_error_or_no_code_witness:
  "map_of (query \<lparr>authorization = None, query = [(''error'', QStr ''access_denied'')],
       body = Undefined\<rparr>) ''error'' = Some (QStr ''access_denied'')
   \<and> QStr ''access_denied'' \<noteq> QStr []
   \<and> q_toString (QStr ''access_denied'') = Inr ''access_denied''
   \<and> callback test_config test_runtime
        \<lparr>authorization = None, query = [(''error'', QStr ''access_denied'')], body = Undefined\<rparr>
        (stub_upstream None)
      = \<lparr>response = Redirect ''http://localhost:3000/?error=access_denied'', calls = []\<rparr>
   \<and> map_of (query \<lparr>authorization = None, query = [], body = Undefined\<rparr>) ''error'' = None
   \<and> map_of (query \<lparr>authorization = None, query = [], body = Undefined\<rparr>) ''code'' = None
   \<and> callback test_config test_runtime \<lparr>authorization = None, query = [], body = Undefined\<rparr>
        (stub_upstream None)
      = \<lparr>response = Redirect ''http://localhost:3000/?error=no_code'', calls = []\<rparr>"
  using callback_error_or_no_code [where cfg = test_config and rt = test_runtime
          and req = "\<lparr>authorization = None, query = [(''error'', QStr ''access_denied'')],
                     body = Undefined\<rparr>"
          and e = "QStr ''access_denied''" and s = "''access_denied''"
          and upstream = "stub_upstream None"]
        callback_error_or_no_code [where cfg = test_config and rt = test_runtime
          and req = "\<lparr>authorization = None, query = [], body = Undefined\<rparr>"
          and e = "QStr ''access_denied''" and s = "''access_denied''"
          and upstream = "stub_upstream None"]
  by (simp add: test_config_def)

end
